theory Spec2Isabelle
  imports Main
begin

section \<open>Data model\<close>

text \<open>
  The MPS manager of \<^verbatim>\<open>cmd/mps-control-daemon/mps/manager.go\<close>. The file imports the
  packages \<^verbatim>\<open>api/config/v1\<close> and \<^verbatim>\<open>internal/rm\<close> and uses \<^verbatim>\<open>Daemon\<close>, \<^verbatim>\<open>NewDaemon\<close>,
  \<^verbatim>\<open>ContainerRoot\<close>, \<^verbatim>\<open>Option\<close> and \<^verbatim>\<open>mpsDevice\<close> of its own package, none of which is
  part of the sources at hand. Their data is laid out below as the specification describes
  it; \<^verbatim>\<open>rm.NewNVMLResourceManagers\<close>, \<^verbatim>\<open>assertReplicas\<close> and \<^verbatim>\<open>ContainerRoot\<close> are
  parameters of the functions of the manager.
\<close>

text \<open>Modelled from the spec: the sharing strategy, "an enumerated value with at least
  the members None, TimeSlicing, MPS-style-daemon".\<close>

datatype SharingStrategy =
  SharingStrategyNone | SharingStrategyTimeSlicing | SharingStrategyMPS

text \<open>Modelled from the spec: the configuration is read through
  \<^verbatim>\<open>config.Sharing.SharingStrategy()\<close> only, "a single sharing-strategy enum value"; the
  field holds the value that call yields.\<close>

record Config =
  Sharing :: SharingStrategy

text \<open>Go's \<^verbatim>\<open>error\<close> values: an error made elsewhere, the error of a rejected replica
  count (which names the device and its count), and \<^verbatim>\<open>fmt.Errorf("<prefix>: %w", err)\<close>.\<close>

datatype error =
  ErrorString string
  | InvalidReplicas string int
  | Errorf string error

text \<open>Modelled from the spec: a device has an identity, "a flag indicating hardware
  partition membership", "an optional sharing annotation" and "a replica count".\<close>

record Device =
  ID :: string
  Annotation :: "string option"
  IsMigDevice :: bool
  Replicas :: int

type_synonym AnnotatedID = "string \<times> string option"

text \<open>Modelled from the spec: a resource group has "identity (name)" and an "ordered
  collection of member Devices".\<close>

record ResourceManager =
  Resource :: string
  Devices :: "Device list"

text \<open>Modelled from the spec: a daemon "references the originating ResourceGroup and a
  fixed container-root path".\<close>

record Daemon =
  rm :: ResourceManager
  root :: string

text \<open>The records written by \<^verbatim>\<open>klog.InfoS\<close> (message, then keys and values as passed)
  and \<^verbatim>\<open>klog.Warning\<close>.\<close>

datatype LogValue = Str string | Strategy SharingStrategy

datatype LogEntry = InfoS string "LogValue list" | Warning string

text \<open>\<^verbatim>\<open>type manager struct\<close>; the three library handles are opaque, \<^verbatim>\<open>config\<close> is a
  pointer and may be nil.\<close>

record ('i, 'n, 'd) manager =
  infolib :: 'i
  nvmllib :: 'n
  devicelib :: 'd
  config :: "Config option"

text \<open>\<^verbatim>\<open>type Manager interface\<close> with its two implementations.\<close>

datatype ('i, 'n, 'd) Manager =
  Manager_manager "('i, 'n, 'd) manager"
  | Manager_nullManager

text \<open>A Go call either returns its results or panics.\<close>

datatype 'a outcome = Panic string | Return 'a

section \<open>Collaborators outside the sources\<close>

text \<open>Modelled from the spec: \<^verbatim>\<open>Devices().GetIDs()\<close> and
  \<^verbatim>\<open>AnnotatedIDs.AnyHasAnnotations\<close> of package \<^verbatim>\<open>rm\<close>: whether a "member device carries
  a sharing annotation".\<close>

definition GetIDs :: "Device list \<Rightarrow> AnnotatedID list" where
  "GetIDs ds = map (\<lambda>d. (ID d, Annotation d)) ds"

definition HasAnnotations :: "AnnotatedID \<Rightarrow> bool" where
  "HasAnnotations a = (case snd a of None \<Rightarrow> False | Some _ \<Rightarrow> True)"

definition AnyHasAnnotations :: "AnnotatedID list \<Rightarrow> bool" where
  "AnyHasAnnotations ids = list_ex HasAnnotations ids"

text \<open>Modelled from the spec: \<^verbatim>\<open>NewDaemon\<close>, "pure, side-effect-free value construction;
  never fails".\<close>

definition NewDaemon :: "ResourceManager \<Rightarrow> string \<Rightarrow> Daemon" where
  "NewDaemon r p = \<lparr>rm = r, root = p\<rparr>"

text \<open>Modelled from the spec: \<^verbatim>\<open>(*mpsDevice).assertReplicas\<close>, "the declared replica
  count must be a positive integer"; a count that is "zero or negative" is rejected with
  an error "identifying the violating resource".\<close>

definition assertReplicas :: "Device \<Rightarrow> error option" where
  "assertReplicas d =
     (if Replicas d \<le> 0 then Some (InvalidReplicas (ID d) (Replicas d)) else None)"

section \<open>The manager\<close>

text \<open>\<^verbatim>\<open>New\<close>: the options are applied in order to the fresh manager; reading the strategy
  through a nil \<^verbatim>\<open>config\<close> is a nil-pointer dereference.\<close>

definition New ::
  "'i \<Rightarrow> 'n \<Rightarrow> 'd \<Rightarrow> (('i, 'n, 'd) manager \<Rightarrow> ('i, 'n, 'd) manager) list
     \<Rightarrow> ((('i, 'n, 'd) Manager \<times> error option) \<times> LogEntry list) outcome" where
  "New il nl dl opts =
     (let m = fold (\<lambda>opt m. opt m) opts
                \<lparr>infolib = il, nvmllib = nl, devicelib = dl, config = None\<rparr>
      in case config m of
           None \<Rightarrow> Panic ''invalid memory address or nil pointer dereference''
         | Some c \<Rightarrow>
             if Sharing c \<noteq> SharingStrategyMPS
             then Return ((Manager_nullManager, None),
                    [InfoS ''Sharing strategy is not MPS; skipping MPS manager creation''
                       [Str ''strategy'', Strategy (Sharing c)]])
             else Return ((Manager_manager m, None), []))"

text \<open>The loop over the devices of one resource manager (lines 92 to 100). Its
  \<^verbatim>\<open>continue\<close> goes on with the next device.\<close>

fun Daemons_devices ::
  "(Device \<Rightarrow> error option) \<Rightarrow> Device list \<Rightarrow> LogEntry list \<Rightarrow> error option \<times> LogEntry list" where
  "Daemons_devices ar [] lg = (None, lg)"
| "Daemons_devices ar (d # ds) lg =
     (if IsMigDevice d
      then Daemons_devices ar ds
             (lg @ [Warning ''MPS sharing is not supported for MIG devices; skipping daemon creation''])
      else case ar d of
             Some err \<Rightarrow> (Some (Errorf ''invalid MPS configuration'' err), lg)
           | None \<Rightarrow> Daemons_devices ar ds lg)"

text \<open>The loop over the resource managers (lines 79 to 103), with the slice
  \<^verbatim>\<open>daemons\<close> and the log written so far.\<close>

fun Daemons_loop ::
  "(Device \<Rightarrow> error option) \<Rightarrow> string \<Rightarrow> ResourceManager list \<Rightarrow> Daemon list \<Rightarrow> LogEntry list
     \<Rightarrow> (Daemon list \<times> error option) \<times> LogEntry list" where
  "Daemons_loop ar cr [] daemons lg = ((daemons, None), lg)"
| "Daemons_loop ar cr (r # rs) daemons lg =
     (if length (Devices r) = 0
      then Daemons_loop ar cr rs daemons
             (lg @ [InfoS ''No devices associated with resource''
                      [Str ''resource'', Str (Resource r)]])
      else if \<not> AnyHasAnnotations (GetIDs (Devices r))
      then Daemons_loop ar cr rs daemons
             (lg @ [InfoS ''Resource is not shared''
                      [Str ''resource'', Str ''resource'', Str (Resource r)]])
      else case Daemons_devices ar (Devices r) lg of
             (Some err, lg') \<Rightarrow> (([], Some err), lg')
           | (None, lg') \<Rightarrow> Daemons_loop ar cr rs (daemons @ [NewDaemon r cr]) lg')"

text \<open>\<^verbatim>\<open>(*manager).Daemons\<close>. The parameters are what the sources at hand do not hold:
  \<^verbatim>\<open>nvrm\<close> is \<^verbatim>\<open>rm.NewNVMLResourceManagers\<close>, \<^verbatim>\<open>ar\<close> is \<^verbatim>\<open>assertReplicas\<close>, \<^verbatim>\<open>cr\<close> is
  the constant \<^verbatim>\<open>ContainerRoot\<close>.\<close>

definition manager_Daemons ::
  "('i \<Rightarrow> 'n \<Rightarrow> 'd \<Rightarrow> Config option \<Rightarrow> ResourceManager list \<times> error option)
     \<Rightarrow> (Device \<Rightarrow> error option) \<Rightarrow> string \<Rightarrow> ('i, 'n, 'd) manager
     \<Rightarrow> (Daemon list \<times> error option) \<times> LogEntry list" where
  "manager_Daemons nvrm ar cr m =
     (case nvrm (infolib m) (nvmllib m) (devicelib m) (config m) of
        (resourceManagers, Some err) \<Rightarrow> (([], Some err), [])
      | (resourceManagers, None) \<Rightarrow> Daemons_loop ar cr resourceManagers [] [])"

text \<open>\<^verbatim>\<open>(*nullManager).Daemons\<close>.\<close>

definition nullManager_Daemons :: "(Daemon list \<times> error option) \<times> LogEntry list" where
  "nullManager_Daemons = (([], None), [])"

text \<open>The call \<^verbatim>\<open>manager.Daemons()\<close> through the interface.\<close>

definition Daemons ::
  "('i \<Rightarrow> 'n \<Rightarrow> 'd \<Rightarrow> Config option \<Rightarrow> ResourceManager list \<times> error option)
     \<Rightarrow> (Device \<Rightarrow> error option) \<Rightarrow> string \<Rightarrow> ('i, 'n, 'd) Manager
     \<Rightarrow> (Daemon list \<times> error option) \<times> LogEntry list" where
  "Daemons nvrm ar cr M =
     (case M of
        Manager_manager m \<Rightarrow> manager_Daemons nvrm ar cr m
      | Manager_nullManager \<Rightarrow> nullManager_Daemons)"

text \<open>\<^verbatim>\<open>NewDaemons\<close>: \<^verbatim>\<open>New\<close>, then \<^verbatim>\<open>Daemons\<close> of the manager it returns.\<close>

definition NewDaemons ::
  "('i \<Rightarrow> 'n \<Rightarrow> 'd \<Rightarrow> Config option \<Rightarrow> ResourceManager list \<times> error option)
     \<Rightarrow> (Device \<Rightarrow> error option) \<Rightarrow> string
     \<Rightarrow> 'i \<Rightarrow> 'n \<Rightarrow> 'd \<Rightarrow> (('i, 'n, 'd) manager \<Rightarrow> ('i, 'n, 'd) manager) list
     \<Rightarrow> ((Daemon list \<times> error option) \<times> LogEntry list) outcome" where
  "NewDaemons nvrm ar cr il nl dl opts =
     (case New il nl dl opts of
        Panic p \<Rightarrow> Panic p
      | Return ((M, Some err), lg) \<Rightarrow>
          Return (([], Some (Errorf ''failed to create MPS manager'' err)), lg)
      | Return ((M, None), lg) \<Rightarrow>
          (case Daemons nvrm ar cr M of (res, lg') \<Rightarrow> Return (res, lg @ lg')))"

section \<open>Predicates and inputs used in the statements\<close>

text \<open>The two filters of lines 81 and 87 let a resource manager through when it has devices
  and one of their IDs is annotated.\<close>

definition is_shared :: "ResourceManager \<Rightarrow> bool" where
  "is_shared r = (Devices r \<noteq> [] \<and> AnyHasAnnotations (GetIDs (Devices r)))"

text \<open>The records the loop writes for one resource manager that it passes without an
  error.\<close>

definition group_log :: "ResourceManager \<Rightarrow> LogEntry list" where
  "group_log r =
     (if Devices r = []
      then [InfoS ''No devices associated with resource'' [Str ''resource'', Str (Resource r)]]
      else if \<not> AnyHasAnnotations (GetIDs (Devices r))
      then [InfoS ''Resource is not shared'' [Str ''resource'', Str ''resource'', Str (Resource r)]]
      else map (\<lambda>d. Warning ''MPS sharing is not supported for MIG devices; skipping daemon creation'')
             (filter IsMigDevice (Devices r)))"

text \<open>A manager as \<^verbatim>\<open>New\<close> returns it under the MPS strategy, and the resource managers
  of the scenarios of the specification.\<close>

definition mps_manager :: "(unit, unit, unit) manager" where
  "mps_manager = \<lparr>infolib = (), nvmllib = (), devicelib = (),
                   config = Some \<lparr>Sharing = SharingStrategyMPS\<rparr>\<rparr>"

definition gpu0_shared :: ResourceManager where
  "gpu0_shared = \<lparr>Resource = ''gpu0'', Devices =
     [\<lparr>ID = ''GPU-0'', Annotation = Some ''0'', IsMigDevice = False, Replicas = 2\<rparr>]\<rparr>"

definition gpu1_unshared :: ResourceManager where
  "gpu1_unshared = \<lparr>Resource = ''gpu1'', Devices =
     [\<lparr>ID = ''GPU-1'', Annotation = None, IsMigDevice = False, Replicas = 1\<rparr>]\<rparr>"

definition gpu0_mig :: ResourceManager where
  "gpu0_mig = \<lparr>Resource = ''gpu0'', Devices =
     [\<lparr>ID = ''MIG-0'', Annotation = Some ''0'', IsMigDevice = True, Replicas = 2\<rparr>]\<rparr>"

definition gpu0_zero :: ResourceManager where
  "gpu0_zero = \<lparr>Resource = ''gpu0'', Devices =
     [\<lparr>ID = ''GPU-0'', Annotation = Some ''0'', IsMigDevice = False, Replicas = 0\<rparr>]\<rparr>"

definition gpu2_empty :: ResourceManager where
  "gpu2_empty = \<lparr>Resource = ''gpu2'', Devices = []\<rparr>"

definition gpu3_mig_zero :: ResourceManager where
  "gpu3_mig_zero = \<lparr>Resource = ''gpu3'', Devices =
     [\<lparr>ID = ''MIG-3'', Annotation = Some ''0'', IsMigDevice = True, Replicas = 0\<rparr>,
      \<lparr>ID = ''MIG-4'', Annotation = Some ''1'', IsMigDevice = True, Replicas = - 1\<rparr>]\<rparr>"

text \<open>The record written for a resource manager that one of the two filters stops (lines 82
  and 88), the warning of line 94, and the test that tells the records of \<^verbatim>\<open>klog.InfoS\<close> from
  the warnings.\<close>

definition is_InfoS :: "LogEntry \<Rightarrow> bool" where
  "is_InfoS x = (case x of InfoS s vs \<Rightarrow> True | Warning s \<Rightarrow> False)"

definition skip_record :: "ResourceManager \<Rightarrow> LogEntry" where
  "skip_record r =
     (if length (Devices r) = 0
      then InfoS ''No devices associated with resource'' [Str ''resource'', Str (Resource r)]
      else InfoS ''Resource is not shared'' [Str ''resource'', Str ''resource'', Str (Resource r)])"

abbreviation MIG_warning :: LogEntry where
  "MIG_warning \<equiv> Warning ''MPS sharing is not supported for MIG devices; skipping daemon creation''"


text \<open>The errors made at line 98.\<close>

definition is_invalid_MPS_configuration :: "error \<Rightarrow> bool" where
  "is_invalid_MPS_configuration e =
     (case e of Errorf p e' \<Rightarrow> p = ''invalid MPS configuration'' | _ \<Rightarrow> False)"



text \<open>Stand-ins for \<^verbatim>\<open>rm.NewNVMLResourceManagers\<close> on a node where it returns the given
  resource managers, or fails with the given error.\<close>

definition resource_managers ::
  "ResourceManager list \<Rightarrow> 'i \<Rightarrow> 'n \<Rightarrow> 'd \<Rightarrow> Config option
     \<Rightarrow> ResourceManager list \<times> error option" where
  "resource_managers rms il nl dl c = (rms, None)"

definition resource_managers_fail ::
  "error \<Rightarrow> 'i \<Rightarrow> 'n \<Rightarrow> 'd \<Rightarrow> Config option \<Rightarrow> ResourceManager list \<times> error option" where
  "resource_managers_fail err il nl dl c = ([], Some err)"

text \<open>An option (\<^verbatim>\<open>func(*manager)\<close>) that stores a configuration in the manager.\<close>

definition with_config :: "Config \<Rightarrow> ('i, 'n, 'd) manager \<Rightarrow> ('i, 'n, 'd) manager" where
  "with_config c m = m\<lparr>config := Some c\<rparr>"

section \<open>The two loops\<close>

lemma devices_fst_log:
  "fst (Daemons_devices ar ds lg) = fst (Daemons_devices ar ds lg')"
  by (induction ds arbitrary: lg lg') (auto split: option.splits)

lemma devices_error:
  "fst (Daemons_devices ar ds lg) = Some e \<Longrightarrow>
     \<exists>d\<in>set ds. \<not> IsMigDevice d \<and> (\<exists>e'. ar d = Some e' \<and> e = Errorf ''invalid MPS configuration'' e')"
  by (induction ds arbitrary: lg) (auto split: option.splits if_splits)

lemma devices_ok_iff:
  "(fst (Daemons_devices ar ds lg) = None) = (\<forall>d\<in>set ds. IsMigDevice d \<or> ar d = None)"
  by (induction ds arbitrary: lg) (auto split: option.splits)

lemma devices_log:
  "fst (Daemons_devices ar ds lg) = None \<Longrightarrow>
   snd (Daemons_devices ar ds lg) =
     lg @ map (\<lambda>d. Warning ''MPS sharing is not supported for MIG devices; skipping daemon creation'')
            (filter IsMigDevice ds)"
  by (induction ds arbitrary: lg) (auto split: option.splits if_splits)

lemma loop_fst_log:
  "fst (Daemons_loop ar cr rs acc lg) = fst (Daemons_loop ar cr rs acc lg')"
proof (induction rs arbitrary: acc lg lg')
  case Nil
  show ?case by simp
next
  case (Cons r rs)
  have d: "fst (Daemons_devices ar (Devices r) lg) = fst (Daemons_devices ar (Devices r) lg')"
    by (rule devices_fst_log)
  show ?case
  proof (cases "Devices r = [] \<or> \<not> AnyHasAnnotations (GetIDs (Devices r))")
    case True
    then show ?thesis using Cons.IH by auto
  next
    case False
    obtain x l where x: "Daemons_devices ar (Devices r) lg = (x, l)" by (cases "Daemons_devices ar (Devices r) lg")
    obtain x' l' where x': "Daemons_devices ar (Devices r) lg' = (x', l')" by (cases "Daemons_devices ar (Devices r) lg'")
    from d x x' have "x = x'" by simp
    with False x x' show ?thesis using Cons.IH[of "acc @ [NewDaemon r cr]" l l']
      by (cases x) auto
  qed
qed

lemma loop_ok:
  "snd (fst (Daemons_loop ar cr rs acc lg)) = None \<Longrightarrow>
   fst (fst (Daemons_loop ar cr rs acc lg)) = acc @ map (\<lambda>r. NewDaemon r cr) (filter is_shared rs)"
  by (induction rs arbitrary: acc lg) (auto simp: is_shared_def split: option.splits prod.splits)

lemma loop_err:
  "snd (fst (Daemons_loop ar cr rs acc lg)) = Some e \<Longrightarrow>
   fst (fst (Daemons_loop ar cr rs acc lg)) = [] \<and>
   (\<exists>r\<in>set rs. is_shared r \<and>
      (\<exists>d\<in>set (Devices r). \<not> IsMigDevice d \<and>
         (\<exists>e'. ar d = Some e' \<and> e = Errorf ''invalid MPS configuration'' e')))"
proof (induction rs arbitrary: acc lg)
  case Nil
  then show ?case by simp
next
  case (Cons r rs)
  show ?case
  proof (cases "is_shared r")
    case False
    then show ?thesis using Cons.prems Cons.IH by (auto simp: is_shared_def)
  next
    case True
    obtain x l where x: "Daemons_devices ar (Devices r) lg = (x, l)" by (cases "Daemons_devices ar (Devices r) lg")
    show ?thesis
    proof (cases x)
      case None
      with True x Cons.prems have "snd (fst (Daemons_loop ar cr rs (acc @ [NewDaemon r cr]) l)) = Some e"
        by (simp add: is_shared_def)
      from Cons.IH[OF this] None True x show ?thesis by (auto simp: is_shared_def)
    next
      case (Some err)
      with True x Cons.prems have e: "e = err" by (simp add: is_shared_def)
      from x Some have "fst (Daemons_devices ar (Devices r) lg) = Some err" by simp
      from devices_error[OF this] e True x Some show ?thesis by (auto simp: is_shared_def)
    qed
  qed
qed

lemma loop_none_iff:
  "(snd (fst (Daemons_loop ar cr rs acc lg)) = None) =
   (\<forall>r\<in>set rs. is_shared r \<longrightarrow> (\<forall>d\<in>set (Devices r). IsMigDevice d \<or> ar d = None))"
proof (induction rs arbitrary: acc lg)
  case Nil
  show ?case by simp
next
  case (Cons r rs)
  show ?case
  proof (cases "is_shared r")
    case False
    then show ?thesis using Cons.IH by (auto simp: is_shared_def)
  next
    case True
    obtain x l where x: "Daemons_devices ar (Devices r) lg = (x, l)" by (cases "Daemons_devices ar (Devices r) lg")
    have "(x = None) = (\<forall>d\<in>set (Devices r). IsMigDevice d \<or> ar d = None)"
      using devices_ok_iff[of ar "Devices r" lg] x by simp
    with True x show ?thesis using Cons.IH[of "acc @ [NewDaemon r cr]" l]
      by (cases x) (auto simp: is_shared_def)
  qed
qed

lemma loop_append:
  "Daemons_loop ar cr (rs1 @ rs2) acc lg =
     (case Daemons_loop ar cr rs1 acc lg of
        ((ds, None), lg') \<Rightarrow> Daemons_loop ar cr rs2 ds lg'
      | ((ds, Some e), lg') \<Rightarrow> ((ds, Some e), lg'))"
  by (induction rs1 arbitrary: acc lg) (auto split: option.splits prod.splits)

lemma any_annotated:
  "AnyHasAnnotations (GetIDs ds) = (\<exists>d\<in>set ds. Annotation d \<noteq> None)"
  by (induction ds) (auto simp: AnyHasAnnotations_def GetIDs_def HasAnnotations_def split: option.splits)

lemma loop_log:
  "snd (fst (Daemons_loop ar cr rs acc lg)) = None \<Longrightarrow>
   snd (Daemons_loop ar cr rs acc lg) = lg @ concat (map group_log rs)"
proof (induction rs arbitrary: acc lg)
  case Nil
  show ?case by simp
next
  case (Cons r rs)
  show ?case
  proof (cases "is_shared r")
    case False
    then show ?thesis using Cons.prems Cons.IH by (auto simp: is_shared_def group_log_def)
  next
    case True
    obtain x l where x: "Daemons_devices ar (Devices r) lg = (x, l)" by (cases "Daemons_devices ar (Devices r) lg")
    with True Cons.prems have n: "x = None" by (cases x) (auto simp: is_shared_def)
    with x have "l = lg @ group_log r"
      using devices_log[of ar "Devices r" lg] True by (simp add: is_shared_def group_log_def)
    moreover from True x n Cons.prems
    have "snd (fst (Daemons_loop ar cr rs (acc @ [NewDaemon r cr]) l)) = None"
      by (simp add: is_shared_def)
    ultimately show ?thesis using Cons.IH[of "acc @ [NewDaemon r cr]" l] True x n
      by (simp add: is_shared_def)
  qed
qed

lemma loop_skip:
  assumes "\<not> is_shared g"
  shows "fst (Daemons_loop ar cr (rs1 @ g # rs2) acc lg) = fst (Daemons_loop ar cr (rs1 @ rs2) acc lg)"
proof -
  obtain ds x l where r: "Daemons_loop ar cr rs1 acc lg = ((ds, x), l)"
    by (cases "Daemons_loop ar cr rs1 acc lg") auto
  show ?thesis
  proof (cases x)
    case None
    from assms have "\<exists>l'. Daemons_loop ar cr (g # rs2) ds l = Daemons_loop ar cr rs2 ds l'"
      by (auto simp: is_shared_def)
    then obtain l' where "Daemons_loop ar cr (g # rs2) ds l = Daemons_loop ar cr rs2 ds l'" ..
    with r None show ?thesis
      using loop_fst_log[of ar cr rs2 ds l' l] by (simp add: loop_append)
  next
    case (Some e)
    with r show ?thesis by (simp add: loop_append)
  qed
qed

lemma loop_not_member:
  assumes "\<not> is_shared g"
  shows "NewDaemon g cr \<notin> set (fst (fst (Daemons_loop ar cr rs [] lg)))"
proof (cases "snd (fst (Daemons_loop ar cr rs [] lg))")
  case None
  from loop_ok[OF this] assms show ?thesis by (auto simp: NewDaemon_def)
next
  case (Some e)
  from loop_err[OF this] show ?thesis by simp
qed

lemma Daemons_loop_eq:
  "nvrm (infolib m) (nvmllib m) (devicelib m) (config m) = (rms, None) \<Longrightarrow>
   Daemons nvrm ar cr (Manager_manager m) = Daemons_loop ar cr rms [] []"
  by (simp add: Daemons_def manager_Daemons_def)

lemma devices_log_any:
  "\<exists>n. snd (Daemons_devices ar ds lg) = lg @ replicate n MIG_warning \<and>
       (0 < n \<longrightarrow> (\<exists>d\<in>set ds. IsMigDevice d))"
proof (induction ds arbitrary: lg)
  case Nil
  show ?case by simp
next
  case (Cons d ds)
  show ?case
  proof (cases "IsMigDevice d")
    case True
    from Cons.IH[of "lg @ [MIG_warning]"] obtain n where
      "snd (Daemons_devices ar ds (lg @ [MIG_warning])) = (lg @ [MIG_warning]) @ replicate n MIG_warning"
      by blast
    with True have "snd (Daemons_devices ar (d # ds) lg) = lg @ replicate (Suc n) MIG_warning"
      by simp
    with True show ?thesis by (intro exI[of _ "Suc n"]) simp
  next
    case False
    show ?thesis
    proof (cases "ar d")
      case None
      with False show ?thesis using Cons.IH[of lg] by auto
    next
      case (Some err)
      with False show ?thesis by (intro exI[of _ 0]) simp
    qed
  qed
qed

lemma group_log_skip:
  "\<not> is_shared r \<Longrightarrow> group_log r = [skip_record r]"
  by (auto simp: is_shared_def group_log_def skip_record_def)

lemma group_log_shared:
  "is_shared r \<Longrightarrow> group_log r = replicate (length (filter IsMigDevice (Devices r))) MIG_warning"
  by (auto simp: is_shared_def group_log_def map_replicate_const)

lemma filter_InfoS_replicate: "filter is_InfoS (replicate n MIG_warning) = []"
  by (induction n) (auto simp: is_InfoS_def)

lemma filter_InfoS_logs:
  "filter is_InfoS (concat (map group_log rs)) = map skip_record (filter (\<lambda>r. \<not> is_shared r) rs)"
proof (induction rs)
  case Nil
  show ?case by simp
next
  case (Cons r rs)
  then show ?case
    by (cases "is_shared r")
      (simp_all add: group_log_skip group_log_shared filter_InfoS_replicate is_InfoS_def skip_record_def)
qed

lemma warning_in_logs:
  assumes "r \<in> set rs" and "is_shared r" and "d \<in> set (Devices r)" and "IsMigDevice d"
  shows "MIG_warning \<in> set (concat (map group_log rs))"
proof -
  from assms(3,4) have "filter IsMigDevice (Devices r) \<noteq> []"
    by (auto simp: filter_empty_conv)
  then have "MIG_warning \<in> set (group_log r)"
    using assms(2) by (simp add: group_log_shared)
  with assms(1) show ?thesis by auto
qed

lemma other_in_logs:
  assumes "x \<in> set (concat (map group_log rs))" and "\<not> is_InfoS x"
  shows "x = MIG_warning \<and> (\<exists>r\<in>set rs. is_shared r \<and> (\<exists>d\<in>set (Devices r). IsMigDevice d))"
proof -
  from assms(1) obtain r where r: "r \<in> set rs" "x \<in> set (group_log r)" by auto
  show ?thesis
  proof (cases "is_shared r")
    case False
    with r(2) assms(2) show ?thesis
      by (auto simp: group_log_skip skip_record_def is_InfoS_def split: if_splits)
  next
    case True
    with r(2) have x: "x = MIG_warning" and "filter IsMigDevice (Devices r) \<noteq> []"
      by (auto simp: group_log_shared)
    then have "\<exists>d\<in>set (Devices r). IsMigDevice d" by (auto simp: filter_empty_conv)
    with x r(1) True show ?thesis by blast
  qed
qed

lemma loop_err_log:
  "snd (fst (Daemons_loop ar cr rs acc lg)) = Some e \<Longrightarrow>
   \<exists>rs1 g rs2 n. rs = rs1 @ g # rs2 \<and> is_shared g \<and>
      (\<exists>d\<in>set (Devices g). \<not> IsMigDevice d \<and>
         (\<exists>e'. ar d = Some e' \<and> e = Errorf ''invalid MPS configuration'' e')) \<and>
      snd (Daemons_loop ar cr rs acc lg) = lg @ concat (map group_log rs1) @ replicate n MIG_warning \<and>
      (0 < n \<longrightarrow> (\<exists>d\<in>set (Devices g). IsMigDevice d))"
proof (induction rs arbitrary: acc lg)
  case Nil
  then show ?case by simp
next
  case (Cons r rs)
  show ?case
  proof (cases "is_shared r")
    case False
    then have step: "Daemons_loop ar cr (r # rs) acc lg = Daemons_loop ar cr rs acc (lg @ group_log r)"
      by (auto simp: is_shared_def group_log_def)
    with Cons.prems have "snd (fst (Daemons_loop ar cr rs acc (lg @ group_log r))) = Some e" by simp
    from Cons.IH[OF this] obtain rs1 g rs2 n where
      h: "rs = rs1 @ g # rs2" "is_shared g"
        "\<exists>d\<in>set (Devices g). \<not> IsMigDevice d \<and>
           (\<exists>e'. ar d = Some e' \<and> e = Errorf ''invalid MPS configuration'' e')"
        "snd (Daemons_loop ar cr rs acc (lg @ group_log r)) =
           (lg @ group_log r) @ concat (map group_log rs1) @ replicate n MIG_warning"
        "0 < n \<longrightarrow> (\<exists>d\<in>set (Devices g). IsMigDevice d)"
      by blast
    show ?thesis
      apply (rule exI[of _ "r # rs1"], rule exI[of _ g], rule exI[of _ rs2], rule exI[of _ n])
      using h step by simp
  next
    case True
    obtain x l where x: "Daemons_devices ar (Devices r) lg = (x, l)"
      by (cases "Daemons_devices ar (Devices r) lg")
    show ?thesis
    proof (cases x)
      case None
      with x have l: "l = lg @ group_log r"
        using devices_log[of ar "Devices r" lg] True by (simp add: is_shared_def group_log_def)
      from True x None have step:
        "Daemons_loop ar cr (r # rs) acc lg = Daemons_loop ar cr rs (acc @ [NewDaemon r cr]) l"
        by (simp add: is_shared_def)
      with Cons.prems have "snd (fst (Daemons_loop ar cr rs (acc @ [NewDaemon r cr]) l)) = Some e"
        by simp
      from Cons.IH[OF this] obtain rs1 g rs2 n where
        h: "rs = rs1 @ g # rs2" "is_shared g"
          "\<exists>d\<in>set (Devices g). \<not> IsMigDevice d \<and>
             (\<exists>e'. ar d = Some e' \<and> e = Errorf ''invalid MPS configuration'' e')"
          "snd (Daemons_loop ar cr rs (acc @ [NewDaemon r cr]) l) =
             l @ concat (map group_log rs1) @ replicate n MIG_warning"
          "0 < n \<longrightarrow> (\<exists>d\<in>set (Devices g). IsMigDevice d)"
        by blast
      show ?thesis
        apply (rule exI[of _ "r # rs1"], rule exI[of _ g], rule exI[of _ rs2], rule exI[of _ n])
        using h step l by simp
    next
      case (Some err)
      with True x Cons.prems have e: "e = err" by (simp add: is_shared_def)
      from x Some have "fst (Daemons_devices ar (Devices r) lg) = Some err" by simp
      from devices_error[OF this] e have d:
        "\<exists>d\<in>set (Devices r). \<not> IsMigDevice d \<and>
           (\<exists>e'. ar d = Some e' \<and> e = Errorf ''invalid MPS configuration'' e')"
        by simp
      from devices_log_any[of ar "Devices r" lg] x obtain n where
        n: "l = lg @ replicate n MIG_warning" "0 < n \<longrightarrow> (\<exists>d\<in>set (Devices r). IsMigDevice d)"
        by auto
      from True x Some have sl: "snd (Daemons_loop ar cr (r # rs) acc lg) = l"
        by (simp add: is_shared_def)
      show ?thesis
        apply (rule exI[of _ "[]"], rule exI[of _ r], rule exI[of _ rs], rule exI[of _ n])
        using n d True sl by simp
    qed
  qed
qed


lemma loop_logs_sound:
  assumes "x \<in> set (snd (Daemons_loop ar cr rms [] []))" and "\<not> is_InfoS x"
  shows "x = MIG_warning \<and> (\<exists>r\<in>set rms. is_shared r \<and> (\<exists>d\<in>set (Devices r). IsMigDevice d))"
proof (cases "snd (fst (Daemons_loop ar cr rms [] []))")
  case None
  from loop_log[OF this] assms show ?thesis using other_in_logs[of x rms] by simp
next
  case (Some e)
  from loop_err_log[OF this] obtain rs1 g rs2 n where
    h: "rms = rs1 @ g # rs2" "is_shared g"
      "snd (Daemons_loop ar cr rms [] []) = [] @ concat (map group_log rs1) @ replicate n MIG_warning"
      "0 < n \<longrightarrow> (\<exists>d\<in>set (Devices g). IsMigDevice d)"
    by blast
  from assms(1) h(3) consider "x \<in> set (concat (map group_log rs1))" | "x \<in> set (replicate n MIG_warning)"
    by auto
  then show ?thesis
  proof cases
    case 1
    from other_in_logs[OF 1 assms(2)] h(1) show ?thesis by auto
  next
    case 2
    then have "x = MIG_warning" "0 < n" by auto
    with h(1,2,4) show ?thesis by auto
  qed
qed

section \<open>Properties of the manager\<close>

text \<open>C1. A resource manager whose only device is a MIG device, annotated and with two
  replicas, passes both filters; the device loop writes its warning and goes on with the next
  device, so the daemon of the resource manager is created all the same: the result is one
  daemon and a nil error, not the empty list.\<close>

theorem C1_mig_group_gets_daemon:
  "Daemons (resource_managers [gpu0_mig]) assertReplicas ''/mps'' (Manager_manager mps_manager) =
     (([NewDaemon gpu0_mig ''/mps''], None),
      [Warning ''MPS sharing is not supported for MIG devices; skipping daemon creation''])"
  by (simp add: Daemons_def manager_Daemons_def resource_managers_def AnyHasAnnotations_def
      GetIDs_def HasAnnotations_def gpu0_mig_def)




text \<open>C3. When the configuration the options leave in the manager has a strategy other than
  MPS, \<^verbatim>\<open>New\<close> returns the null manager and a nil error; \<^verbatim>\<open>Daemons\<close> of the null manager
  returns the empty list and a nil error and writes nothing, whatever the resource managers of
  the node would be, and so does \<^verbatim>\<open>NewDaemons\<close>.\<close>

theorem C3_not_MPS_null_manager:
  assumes "config (fold (\<lambda>opt m. opt m) opts
             \<lparr>infolib = il, nvmllib = nl, devicelib = dl, config = None\<rparr>) = Some c"
    and "Sharing c \<noteq> SharingStrategyMPS"
  shows "\<exists>lg. New il nl dl opts = Return ((Manager_nullManager, None), lg) \<and>
           Daemons nvrm ar cr (Manager_nullManager :: ('i, 'n, 'd) Manager) = (([], None), []) \<and>
           NewDaemons nvrm ar cr il nl dl opts = Return (([], None), lg)"
  using assms by (simp add: New_def NewDaemons_def Daemons_def nullManager_Daemons_def Let_def)

theorem C3_not_MPS_null_manager_witness:
  "\<exists>lg. New () () () [with_config \<lparr>Sharing = SharingStrategyTimeSlicing\<rparr>] =
          Return ((Manager_nullManager, None), lg) \<and>
        Daemons (resource_managers [gpu0_shared, gpu0_zero]) assertReplicas ''/mps''
          (Manager_nullManager :: (unit, unit, unit) Manager) = (([], None), []) \<and>
        NewDaemons (resource_managers [gpu0_shared, gpu0_zero]) assertReplicas ''/mps'' () () ()
          [with_config \<lparr>Sharing = SharingStrategyTimeSlicing\<rparr>] = Return (([], None), lg)"
  using C3_not_MPS_null_manager [of "[with_config \<lparr>Sharing = SharingStrategyTimeSlicing\<rparr>]"
      "()" "()" "()" "\<lparr>Sharing = SharingStrategyTimeSlicing\<rparr>"
      "resource_managers [gpu0_shared, gpu0_zero]" assertReplicas "''/mps''"]
  by (simp add: with_config_def)

text \<open>C4, as stated, fails: when \<^verbatim>\<open>rm.NewNVMLResourceManagers\<close> fails, \<^verbatim>\<open>Daemons\<close> of the
  real manager returns that error (lines 75 to 77), which is no replica-count error.\<close>

theorem C4_resource_managers_error:
  "Daemons (resource_managers_fail (ErrorString ''failed to construct NVML resource managers''))
     assertReplicas ''/mps'' (Manager_manager mps_manager) =
     (([], Some (ErrorString ''failed to construct NVML resource managers'')), []) \<and>
   \<not> is_invalid_MPS_configuration (ErrorString ''failed to construct NVML resource managers'')"
  by (simp add: Daemons_def manager_Daemons_def resource_managers_fail_def
      is_invalid_MPS_configuration_def)

text \<open>C4, amended. An error that \<^verbatim>\<open>Daemons\<close> of the real manager returns comes with no
  daemon and is one of two: the error of \<^verbatim>\<open>rm.NewNVMLResourceManagers\<close>, unchanged and with
  nothing logged, or, with the resource managers at hand, the error \<^verbatim>\<open>invalid MPS configuration\<close>
  wrapping what \<^verbatim>\<open>assertReplicas\<close> returned for a device that is not a MIG device, in a
  resource manager that has devices and an annotated ID. A resource manager without devices or
  without annotated ID is no error but a record in the log: the \<^verbatim>\<open>klog.InfoS\<close> records of the log
  are, in order, one record naming each such resource manager, of all resource managers when
  the error is nil and of those before the failing one otherwise. A MIG device is no error but
  a warning in the log: the log holds the warning when a resource manager with devices, an
  annotated ID and a MIG device was passed without error, and everything in the log that is no
  \<^verbatim>\<open>klog.InfoS\<close> record is that warning, written for a MIG device of such a resource manager.\<close>

theorem C4_errors_of_Daemons:
  "(snd (fst (Daemons nvrm ar cr (Manager_manager m))) = Some e \<longrightarrow>
      fst (fst (Daemons nvrm ar cr (Manager_manager m))) = [] \<and>
      (snd (nvrm (infolib m) (nvmllib m) (devicelib m) (config m)) = Some e \<and>
       snd (Daemons nvrm ar cr (Manager_manager m)) = [] \<or>
       snd (nvrm (infolib m) (nvmllib m) (devicelib m) (config m)) = None \<and>
       is_invalid_MPS_configuration e \<and>
       (\<exists>rs1 g rs2.
          fst (nvrm (infolib m) (nvmllib m) (devicelib m) (config m)) = rs1 @ g # rs2 \<and>
          is_shared g \<and>
          (\<exists>d\<in>set (Devices g). \<not> IsMigDevice d \<and>
             (\<exists>e'. ar d = Some e' \<and> e = Errorf ''invalid MPS configuration'' e')) \<and>
          filter is_InfoS (snd (Daemons nvrm ar cr (Manager_manager m))) =
            map skip_record (filter (\<lambda>r. \<not> is_shared r) rs1) \<and>
          (\<forall>r\<in>set rs1. is_shared r \<and> (\<exists>d\<in>set (Devices r). IsMigDevice d) \<longrightarrow>
             MIG_warning \<in> set (snd (Daemons nvrm ar cr (Manager_manager m))))))) \<and>
   (snd (fst (Daemons nvrm ar cr (Manager_manager m))) = None \<longrightarrow>
      filter is_InfoS (snd (Daemons nvrm ar cr (Manager_manager m))) =
        map skip_record (filter (\<lambda>r. \<not> is_shared r)
          (fst (nvrm (infolib m) (nvmllib m) (devicelib m) (config m)))) \<and>
      (\<forall>r\<in>set (fst (nvrm (infolib m) (nvmllib m) (devicelib m) (config m))).
         is_shared r \<and> (\<exists>d\<in>set (Devices r). IsMigDevice d) \<longrightarrow>
           MIG_warning \<in> set (snd (Daemons nvrm ar cr (Manager_manager m))))) \<and>
   (\<forall>x\<in>set (snd (Daemons nvrm ar cr (Manager_manager m))). \<not> is_InfoS x \<longrightarrow>
      x = MIG_warning \<and>
      (\<exists>r\<in>set (fst (nvrm (infolib m) (nvmllib m) (devicelib m) (config m))).
         is_shared r \<and> (\<exists>d\<in>set (Devices r). IsMigDevice d)))"
proof -
  obtain rms x where n: "nvrm (infolib m) (nvmllib m) (devicelib m) (config m) = (rms, x)"
    by (cases "nvrm (infolib m) (nvmllib m) (devicelib m) (config m)")
  show ?thesis
  proof (cases x)
    case (Some err)
    with n show ?thesis by (simp add: Daemons_def manager_Daemons_def)
  next
    case None
    with n have D: "Daemons nvrm ar cr (Manager_manager m) = Daemons_loop ar cr rms [] []"
      by (simp add: Daemons_def manager_Daemons_def)
    let ?L = "Daemons_loop ar cr rms [] []"
    have E: "snd (fst ?L) = Some e \<longrightarrow>
        fst (fst ?L) = [] \<and> is_invalid_MPS_configuration e \<and>
        (\<exists>rs1 g rs2. rms = rs1 @ g # rs2 \<and> is_shared g \<and>
          (\<exists>d\<in>set (Devices g). \<not> IsMigDevice d \<and>
             (\<exists>e'. ar d = Some e' \<and> e = Errorf ''invalid MPS configuration'' e')) \<and>
          filter is_InfoS (snd ?L) = map skip_record (filter (\<lambda>r. \<not> is_shared r) rs1) \<and>
          (\<forall>r\<in>set rs1. is_shared r \<and> (\<exists>d\<in>set (Devices r). IsMigDevice d) \<longrightarrow>
             MIG_warning \<in> set (snd ?L)))"
    proof
      assume e: "snd (fst ?L) = Some e"
      from loop_err[OF e] have nil: "fst (fst ?L) = []" and inv: "is_invalid_MPS_configuration e"
        by (auto simp: is_invalid_MPS_configuration_def)
      from loop_err_log[OF e] obtain rs1 g rs2 k where
        h: "rms = rs1 @ g # rs2" "is_shared g"
          "\<exists>d\<in>set (Devices g). \<not> IsMigDevice d \<and>
             (\<exists>e'. ar d = Some e' \<and> e = Errorf ''invalid MPS configuration'' e')"
          "snd ?L = [] @ concat (map group_log rs1) @ replicate k MIG_warning"
        by blast
      from h(4) have f: "filter is_InfoS (snd ?L) = map skip_record (filter (\<lambda>r. \<not> is_shared r) rs1)"
        by (simp add: filter_InfoS_logs filter_InfoS_replicate)
      have w: "\<forall>r\<in>set rs1. is_shared r \<and> (\<exists>d\<in>set (Devices r). IsMigDevice d) \<longrightarrow>
             MIG_warning \<in> set (snd ?L)"
      proof (intro ballI impI)
        fix r assume "r \<in> set rs1" "is_shared r \<and> (\<exists>d\<in>set (Devices r). IsMigDevice d)"
        then have "MIG_warning \<in> set (concat (map group_log rs1))"
          using warning_in_logs[of r rs1] by blast
        with h(4) show "MIG_warning \<in> set (snd ?L)" by simp
      qed
      from nil inv h(1,2,3) f w
      show "fst (fst ?L) = [] \<and> is_invalid_MPS_configuration e \<and>
        (\<exists>rs1 g rs2. rms = rs1 @ g # rs2 \<and> is_shared g \<and>
          (\<exists>d\<in>set (Devices g). \<not> IsMigDevice d \<and>
             (\<exists>e'. ar d = Some e' \<and> e = Errorf ''invalid MPS configuration'' e')) \<and>
          filter is_InfoS (snd ?L) = map skip_record (filter (\<lambda>r. \<not> is_shared r) rs1) \<and>
          (\<forall>r\<in>set rs1. is_shared r \<and> (\<exists>d\<in>set (Devices r). IsMigDevice d) \<longrightarrow>
             MIG_warning \<in> set (snd ?L)))"
        by blast
    qed
    have S: "snd (fst ?L) = None \<longrightarrow>
        filter is_InfoS (snd ?L) = map skip_record (filter (\<lambda>r. \<not> is_shared r) rms) \<and>
        (\<forall>r\<in>set rms. is_shared r \<and> (\<exists>d\<in>set (Devices r). IsMigDevice d) \<longrightarrow>
           MIG_warning \<in> set (snd ?L))"
    proof
      assume "snd (fst ?L) = None"
      from loop_log[OF this] have l: "snd ?L = concat (map group_log rms)" by simp
      have "\<forall>r\<in>set rms. is_shared r \<and> (\<exists>d\<in>set (Devices r). IsMigDevice d) \<longrightarrow>
           MIG_warning \<in> set (concat (map group_log rms))"
        using warning_in_logs[of _ rms] by blast
      then show "filter is_InfoS (snd ?L) = map skip_record (filter (\<lambda>r. \<not> is_shared r) rms) \<and>
        (\<forall>r\<in>set rms. is_shared r \<and> (\<exists>d\<in>set (Devices r). IsMigDevice d) \<longrightarrow>
           MIG_warning \<in> set (snd ?L))"
        by (simp only: l filter_InfoS_logs)
    qed
    have W: "\<forall>x\<in>set (snd ?L). \<not> is_InfoS x \<longrightarrow>
        x = MIG_warning \<and> (\<exists>r\<in>set rms. is_shared r \<and> (\<exists>d\<in>set (Devices r). IsMigDevice d))"
      using loop_logs_sound[of _ ar cr rms] by blast
    from E S W show ?thesis unfolding D n None by simp
  qed
qed

theorem C4_errors_of_Daemons_witness:
  "(fst (fst (Daemons (resource_managers [gpu2_empty, gpu1_unshared, gpu3_mig_zero, gpu0_zero])
            assertReplicas ''/mps'' (Manager_manager mps_manager))) = [] \<and>
    is_invalid_MPS_configuration (Errorf ''invalid MPS configuration'' (InvalidReplicas ''GPU-0'' 0))) \<and>
   filter is_InfoS (snd (Daemons (resource_managers [gpu2_empty, gpu1_unshared, gpu3_mig_zero])
            assertReplicas ''/mps'' (Manager_manager mps_manager))) =
     [InfoS ''No devices associated with resource'' [Str ''resource'', Str ''gpu2''],
      InfoS ''Resource is not shared'' [Str ''resource'', Str ''resource'', Str ''gpu1'']] \<and>
   MIG_warning \<in> set (snd (Daemons (resource_managers [gpu2_empty, gpu1_unshared, gpu3_mig_zero])
            assertReplicas ''/mps'' (Manager_manager mps_manager)))"
proof -
  let ?R1 = "Daemons (resource_managers [gpu2_empty, gpu1_unshared, gpu3_mig_zero, gpu0_zero])
            assertReplicas ''/mps'' (Manager_manager mps_manager)"
  let ?R2 = "Daemons (resource_managers [gpu2_empty, gpu1_unshared, gpu3_mig_zero])
            assertReplicas ''/mps'' (Manager_manager mps_manager)"
  have a: "snd (fst ?R1) = Some (Errorf ''invalid MPS configuration'' (InvalidReplicas ''GPU-0'' 0))"
    by (simp add: Daemons_def manager_Daemons_def resource_managers_def AnyHasAnnotations_def
        GetIDs_def HasAnnotations_def assertReplicas_def gpu2_empty_def gpu1_unshared_def
        gpu3_mig_zero_def gpu0_zero_def)
  have b: "snd (fst ?R2) = None"
    by (simp add: Daemons_def manager_Daemons_def resource_managers_def AnyHasAnnotations_def
        GetIDs_def HasAnnotations_def assertReplicas_def gpu2_empty_def gpu1_unshared_def
        gpu3_mig_zero_def)
  from a C4_errors_of_Daemons [of "resource_managers [gpu2_empty, gpu1_unshared, gpu3_mig_zero, gpu0_zero]"
      assertReplicas "''/mps''" mps_manager "Errorf ''invalid MPS configuration'' (InvalidReplicas ''GPU-0'' 0)"]
  have 1: "fst (fst ?R1) = [] \<and>
    is_invalid_MPS_configuration (Errorf ''invalid MPS configuration'' (InvalidReplicas ''GPU-0'' 0))"
    by (simp add: is_invalid_MPS_configuration_def)
  from b C4_errors_of_Daemons [of "resource_managers [gpu2_empty, gpu1_unshared, gpu3_mig_zero]"
      assertReplicas "''/mps''" mps_manager]
  have 2: "filter is_InfoS (snd ?R2) =
      map skip_record (filter (\<lambda>r. \<not> is_shared r)
        (fst (resource_managers [gpu2_empty, gpu1_unshared, gpu3_mig_zero]
            (infolib mps_manager) (nvmllib mps_manager) (devicelib mps_manager) (config mps_manager)))) \<and>
     (\<forall>r\<in>set (fst (resource_managers [gpu2_empty, gpu1_unshared, gpu3_mig_zero]
            (infolib mps_manager) (nvmllib mps_manager) (devicelib mps_manager) (config mps_manager))).
         is_shared r \<and> (\<exists>d\<in>set (Devices r). IsMigDevice d) \<longrightarrow> MIG_warning \<in> set (snd ?R2))"
    by blast
  have 4: "\<not> is_shared gpu2_empty" "\<not> is_shared gpu1_unshared" "is_shared gpu3_mig_zero"
    "\<exists>d\<in>set (Devices gpu3_mig_zero). IsMigDevice d"
    by (simp_all add: is_shared_def gpu2_empty_def gpu1_unshared_def gpu3_mig_zero_def
        AnyHasAnnotations_def GetIDs_def HasAnnotations_def)
  have 5: "skip_record gpu2_empty =
      InfoS ''No devices associated with resource'' [Str ''resource'', Str ''gpu2'']"
    "skip_record gpu1_unshared =
      InfoS ''Resource is not shared'' [Str ''resource'', Str ''resource'', Str ''gpu1'']"
    by (simp_all add: skip_record_def gpu2_empty_def gpu1_unshared_def)
  from 2 have "filter is_InfoS (snd ?R2) =
     [InfoS ''No devices associated with resource'' [Str ''resource'', Str ''gpu2''],
      InfoS ''Resource is not shared'' [Str ''resource'', Str ''resource'', Str ''gpu1'']]"
    by (simp add: resource_managers_def 4 5)
  moreover from 2 have "MIG_warning \<in> set (snd ?R2)"
    by (simp add: resource_managers_def 4)
  ultimately show ?thesis using 1 by blast
qed

text \<open>C5. \<^verbatim>\<open>Daemons\<close> of the real manager never returns more daemons than
  \<^verbatim>\<open>rm.NewNVMLResourceManagers\<close> returned resource managers, and the null manager returns
  none.\<close>

theorem C5_no_more_daemons_than_groups:
  "length (fst (fst (Daemons nvrm ar cr (Manager_manager m)))) \<le>
     length (fst (nvrm (infolib m) (nvmllib m) (devicelib m) (config m))) \<and>
   length (fst (fst (Daemons nvrm ar cr Manager_nullManager))) = 0"
proof -
  obtain rms x where n: "nvrm (infolib m) (nvmllib m) (devicelib m) (config m) = (rms, x)"
    by (cases "nvrm (infolib m) (nvmllib m) (devicelib m) (config m)")
  have "length (fst (fst (Daemons nvrm ar cr (Manager_manager m)))) \<le> length rms"
  proof (cases x)
    case (Some err)
    with n show ?thesis by (simp add: Daemons_def manager_Daemons_def)
  next
    case None
    with n have D: "Daemons nvrm ar cr (Manager_manager m) = Daemons_loop ar cr rms [] []"
      by (simp add: Daemons_def manager_Daemons_def)
    show ?thesis
    proof (cases "snd (fst (Daemons_loop ar cr rms [] []))")
      case None
      from loop_ok[OF this] show ?thesis unfolding D by simp
    next
      case (Some e)
      from loop_err[OF this] show ?thesis unfolding D by simp
    qed
  qed
  with n show ?thesis by (simp add: Daemons_def nullManager_Daemons_def)
qed

text \<open>C6. A resource manager without devices contributes no daemon, and the daemons and the
  error \<^verbatim>\<open>Daemons\<close> returns are those it returns for the resource managers without that one:
  the skip causes no error.\<close>

theorem C6_empty_group_skipped:
  assumes "Devices g = []"
    and "nvrm (infolib m) (nvmllib m) (devicelib m) (config m) = (rs1 @ g # rs2, None)"
    and "nvrm' (infolib m) (nvmllib m) (devicelib m) (config m) = (rs1 @ rs2, None)"
  shows "NewDaemon g cr \<notin> set (fst (fst (Daemons nvrm ar cr (Manager_manager m)))) \<and>
         fst (Daemons nvrm ar cr (Manager_manager m)) = fst (Daemons nvrm' ar cr (Manager_manager m))"
proof -
  from assms(1) have "\<not> is_shared g" by (simp add: is_shared_def)
  then show ?thesis
    using loop_not_member[of g cr ar "rs1 @ g # rs2" "[]"] loop_skip[of g ar cr rs1 rs2 "[]" "[]"]
    by (simp add: Daemons_loop_eq[of nvrm m "rs1 @ g # rs2" ar cr, OF assms(2)]
        Daemons_loop_eq[of nvrm' m "rs1 @ rs2" ar cr, OF assms(3)])
qed

theorem C6_empty_group_skipped_witness:
  "NewDaemon gpu2_empty ''/mps'' \<notin> set (fst (fst (Daemons
       (resource_managers [gpu0_shared, gpu2_empty, gpu0_shared]) assertReplicas ''/mps''
       (Manager_manager mps_manager)))) \<and>
   fst (Daemons (resource_managers [gpu0_shared, gpu2_empty, gpu0_shared]) assertReplicas ''/mps''
       (Manager_manager mps_manager)) =
   fst (Daemons (resource_managers [gpu0_shared, gpu0_shared]) assertReplicas ''/mps''
       (Manager_manager mps_manager))"
proof -
  have a: "Devices gpu2_empty = []"
    by (simp add: gpu2_empty_def)
  have b: "resource_managers [gpu0_shared, gpu2_empty, gpu0_shared]
      (infolib mps_manager) (nvmllib mps_manager) (devicelib mps_manager) (config mps_manager) =
      ([gpu0_shared] @ gpu2_empty # [gpu0_shared], None)"
    by (simp add: resource_managers_def)
  have c: "resource_managers [gpu0_shared, gpu0_shared]
      (infolib mps_manager) (nvmllib mps_manager) (devicelib mps_manager) (config mps_manager) =
      ([gpu0_shared] @ [gpu0_shared], None)"
    by (simp add: resource_managers_def)
  show ?thesis
    by (rule C6_empty_group_skipped [of gpu2_empty "resource_managers [gpu0_shared, gpu2_empty, gpu0_shared]"
      mps_manager "[gpu0_shared]" "[gpu0_shared]" "resource_managers [gpu0_shared, gpu0_shared]"
      "''/mps''" assertReplicas, OF a b c])
qed

text \<open>C7. A resource manager none of whose devices carries an annotation contributes no
  daemon, and the daemons and the error \<^verbatim>\<open>Daemons\<close> returns are those it returns for the
  resource managers without that one: the skip causes no error.\<close>

theorem C7_unshared_group_skipped:
  assumes "\<forall>d\<in>set (Devices g). Annotation d = None"
    and "nvrm (infolib m) (nvmllib m) (devicelib m) (config m) = (rs1 @ g # rs2, None)"
    and "nvrm' (infolib m) (nvmllib m) (devicelib m) (config m) = (rs1 @ rs2, None)"
  shows "NewDaemon g cr \<notin> set (fst (fst (Daemons nvrm ar cr (Manager_manager m)))) \<and>
         fst (Daemons nvrm ar cr (Manager_manager m)) = fst (Daemons nvrm' ar cr (Manager_manager m))"
proof -
  from assms(1) have "\<not> is_shared g" by (simp add: is_shared_def any_annotated)
  then show ?thesis
    using loop_not_member[of g cr ar "rs1 @ g # rs2" "[]"] loop_skip[of g ar cr rs1 rs2 "[]" "[]"]
    by (simp add: Daemons_loop_eq[of nvrm m "rs1 @ g # rs2" ar cr, OF assms(2)]
        Daemons_loop_eq[of nvrm' m "rs1 @ rs2" ar cr, OF assms(3)])
qed

theorem C7_unshared_group_skipped_witness:
  "NewDaemon gpu1_unshared ''/mps'' \<notin> set (fst (fst (Daemons
       (resource_managers [gpu0_shared, gpu1_unshared]) assertReplicas ''/mps''
       (Manager_manager mps_manager)))) \<and>
   fst (Daemons (resource_managers [gpu0_shared, gpu1_unshared]) assertReplicas ''/mps''
       (Manager_manager mps_manager)) =
   fst (Daemons (resource_managers [gpu0_shared]) assertReplicas ''/mps''
       (Manager_manager mps_manager))"
proof -
  have a: "\<forall>d\<in>set (Devices gpu1_unshared). Annotation d = None"
    by (simp add: gpu1_unshared_def)
  have b: "resource_managers [gpu0_shared, gpu1_unshared]
      (infolib mps_manager) (nvmllib mps_manager) (devicelib mps_manager) (config mps_manager) =
      ([gpu0_shared] @ gpu1_unshared # [], None)"
    by (simp add: resource_managers_def)
  have c: "resource_managers [gpu0_shared]
      (infolib mps_manager) (nvmllib mps_manager) (devicelib mps_manager) (config mps_manager) =
      ([gpu0_shared] @ [], None)"
    by (simp add: resource_managers_def)
  show ?thesis
    by (rule C7_unshared_group_skipped [of gpu1_unshared "resource_managers [gpu0_shared, gpu1_unshared]"
      mps_manager "[gpu0_shared]" "[]" "resource_managers [gpu0_shared]"
      "''/mps''" assertReplicas, OF a b c])
qed

text \<open>C8. When \<^verbatim>\<open>Daemons\<close> returns a nil error, the daemons it returns are, in the order of
  the resource managers, one daemon for each resource manager that passes the two filters,
  built from that resource manager and the container root.\<close>

theorem C8_order_preserved:
  assumes "snd (fst (Daemons nvrm ar cr (Manager_manager m))) = None"
  shows "fst (fst (Daemons nvrm ar cr (Manager_manager m))) =
           map (\<lambda>r. NewDaemon r cr)
             (filter is_shared (fst (nvrm (infolib m) (nvmllib m) (devicelib m) (config m))))"
proof -
  obtain rms x where n: "nvrm (infolib m) (nvmllib m) (devicelib m) (config m) = (rms, x)"
    by (cases "nvrm (infolib m) (nvmllib m) (devicelib m) (config m)")
  with assms have x: "x = None" by (cases x) (auto simp: Daemons_def manager_Daemons_def)
  from n x have D: "Daemons nvrm ar cr (Manager_manager m) = Daemons_loop ar cr rms [] []"
    by (simp add: Daemons_loop_eq)
  from assms have "snd (fst (Daemons_loop ar cr rms [] [])) = None" by (simp add: D)
  from loop_ok[OF this] show ?thesis by (simp add: D n)
qed

theorem C8_order_preserved_witness:
  "fst (fst (Daemons (resource_managers [gpu0_shared, gpu1_unshared, gpu2_empty,
        \<lparr>Resource = ''gpu4'', Devices = Devices gpu0_shared\<rparr>])
      assertReplicas ''/mps'' (Manager_manager mps_manager))) =
   [NewDaemon gpu0_shared ''/mps'', NewDaemon \<lparr>Resource = ''gpu4'', Devices = Devices gpu0_shared\<rparr> ''/mps'']"
proof -
  have "snd (fst (Daemons (resource_managers [gpu0_shared, gpu1_unshared, gpu2_empty,
        \<lparr>Resource = ''gpu4'', Devices = Devices gpu0_shared\<rparr>])
      assertReplicas ''/mps'' (Manager_manager mps_manager))) = None"
    by (simp add: Daemons_def manager_Daemons_def resource_managers_def gpu0_shared_def
        gpu1_unshared_def gpu2_empty_def AnyHasAnnotations_def GetIDs_def HasAnnotations_def
        assertReplicas_def)
  from C8_order_preserved [OF this] show ?thesis
    by (simp add: resource_managers_def is_shared_def gpu0_shared_def
        gpu1_unshared_def gpu2_empty_def AnyHasAnnotations_def GetIDs_def HasAnnotations_def)
qed

text \<open>C9. When the options leave a configuration in the manager, \<^verbatim>\<open>New\<close> returns a manager
  and a nil error (it does not panic), whatever the strategy.\<close>

theorem C9_New_never_fails:
  assumes "config (fold (\<lambda>opt m. opt m) opts
             \<lparr>infolib = il, nvmllib = nl, devicelib = dl, config = None\<rparr>) \<noteq> None"
  shows "\<exists>M lg. New il nl dl opts = Return ((M, None), lg)"
  using assms by (auto simp: New_def Let_def)

theorem C9_New_never_fails_witness:
  "(\<exists>M lg. New () () () [with_config \<lparr>Sharing = SharingStrategyMPS\<rparr>] = Return ((M, None), lg)) \<and>
   (\<exists>M lg. New () () () [with_config \<lparr>Sharing = SharingStrategyNone\<rparr>] = Return ((M, None), lg))"
  using C9_New_never_fails [of "[with_config \<lparr>Sharing = SharingStrategyMPS\<rparr>]" "()" "()" "()"]
    C9_New_never_fails [of "[with_config \<lparr>Sharing = SharingStrategyNone\<rparr>]" "()" "()" "()"]
  by (simp add: with_config_def)

text \<open>C10. The replica count of a MIG device is never checked: with the resource managers at
  hand, when \<^verbatim>\<open>assertReplicas\<close> accepts every device that is not a MIG device, \<^verbatim>\<open>Daemons\<close>
  returns a nil error, whatever the replica counts of the MIG devices are.\<close>

theorem C10_mig_replicas_not_checked:
  assumes "nvrm (infolib m) (nvmllib m) (devicelib m) (config m) = (rms, None)"
    and "\<forall>r\<in>set rms. \<forall>d\<in>set (Devices r). \<not> IsMigDevice d \<longrightarrow> ar d = None"
  shows "snd (fst (Daemons nvrm ar cr (Manager_manager m))) = None"
proof -
  from assms(2) have "\<forall>r\<in>set rms. is_shared r \<longrightarrow> (\<forall>d\<in>set (Devices r). IsMigDevice d \<or> ar d = None)"
    by meson
  then have "snd (fst (Daemons_loop ar cr rms [] [])) = None"
    by (simp only: loop_none_iff)
  then show ?thesis
    by (simp add: Daemons_loop_eq[of nvrm m rms ar cr, OF assms(1)])
qed

theorem C10_mig_replicas_not_checked_witness:
  "snd (fst (Daemons (resource_managers [gpu3_mig_zero, gpu0_shared]) assertReplicas ''/mps''
          (Manager_manager mps_manager))) = None"
  using C10_mig_replicas_not_checked [of "resource_managers [gpu3_mig_zero, gpu0_shared]" mps_manager
      "[gpu3_mig_zero, gpu0_shared]" assertReplicas "''/mps''"]
  by (simp add: resource_managers_def gpu3_mig_zero_def gpu0_shared_def assertReplicas_def)

end
